theory Spec2Isabelle
  imports Complex_Main "HOL-Library.Word" "HOL-Library.AList"
begin

section \<open>Online data controller: data model\<close>

text \<open>
  The embedding follows \<^verbatim>\<open>src/online/onlinedatacontroller.cpp\<close>. The controller is a
  single-threaded object whose slots run to completion, so every slot is a function from
  the controller's state to its new state. Calls into the collaborators (downloader,
  online data manager, message boxes, signals, the SQL query) are recorded, in order, in
  the field \<open>effects\<close>; what the collaborators return during one slot is the input
  record \<open>env\<close> (every accessor is read at most once per slot, the clock at most twice).
  Diagnostic output (\<^verbatim>\<open>qDebug\<close>, \<^verbatim>\<open>qInfo\<close>, \<^verbatim>\<open>qWarning\<close>) is not modelled.
\<close>

text \<open>C++ \<^verbatim>\<open>int\<close> is a 32-bit two's complement integer: arithmetic wraps, \<open>sint\<close> reads it.\<close>

type_synonym cint = "32 word"

text \<open>\<^verbatim>\<open>QDateTime\<close> values are milliseconds since the epoch.\<close>

type_synonym qdatetime = int

text \<open>The enumeration \<^verbatim>\<open>opts::OnlineNetwork\<close> as the switch in \<^verbatim>\<open>getNetwork\<close> lists it.\<close>

datatype OnlineNetwork =
  ONLINE_NONE | ONLINE_VATSIM | ONLINE_IVAO | ONLINE_CUSTOM_STATUS | ONLINE_CUSTOM

datatype OnlineFormat = ONLINE_FORMAT_VATSIM | ONLINE_FORMAT_IVAO

datatype Format = VATSIM | IVAO | UNKNOWN

text \<open>The download chain's stage, field \<^verbatim>\<open>currentState\<close>.\<close>

datatype State =
  NONE | DOWNLOADING_STATUS | DOWNLOADING_WHAZZUP | DOWNLOADING_WHAZZUP_SERVERS

text \<open>Calls that leave the controller, with their arguments; \<open>'r\<close> is the rectangle type.\<close>

datatype 'r effect =
    CancelDownload
  | SetDefaultUserAgentShort string
  | SetUrl string
  | SingleShotStartDownload
  | SingleShotShowMessageDialog
  | ReadFromStatus string
  | ReadFromWhazzup string Format
  | ReadServersFromWhazzup string Format
  | EmitOnlineClientAndAtcUpdated bool bool
  | EmitOnlineServersUpdated bool bool
  | MessageBoxWarning string string
  | ExecAircraftByRectQuery 'r

text \<open>
  What the collaborators return while one slot of the download chain runs: the option
  data, the settings, the manager's accessors after its parser ran, the gzip helper and
  the system clock (\<open>currentDateTime1\<close> is the first reading in the slot,
  \<open>currentDateTime2\<close> the second).
\<close>

record env =
  onlineNetwork :: OnlineNetwork
  onlineFormat :: OnlineFormat
  onlineStatusUrl :: string
  onlineWhazzupUrl :: string
  onlineReloadTimeSeconds :: cint
  onlineReloadTimeSecondsConfig :: cint
  optionsNoUserAgent :: bool
  whazzupUrlFromStatus :: string
  whazzupUrlFromStatusGzipped :: bool
  messageFromStatus :: string
  readFromWhazzupResult :: bool
  whazzupVoiceUrlFromStatus :: string
  reloadMinutesFromWhazzup :: cint
  gzipDecompress :: "string \<Rightarrow> bool \<times> string"
  currentDateTime1 :: qdatetime
  currentDateTime2 :: qdatetime

text \<open>An aircraft as the queries use it: registration and position (\<open>'p\<close>), and its id.\<close>

record 'p SimConnectAircraft =
  objectId :: nat
  airplaneRegistration :: string
  position :: 'p

text \<open>
  \<^verbatim>\<open>QHash<QString, Pos>\<close> is an association list with distinct keys: \<^verbatim>\<open>insert\<close> replaces
  the value of a key that is present. \<open>qhash_keys\<close> is the set of keys, which decides
  \<^verbatim>\<open>contains\<close>. The list \<^verbatim>\<open>keys()\<close> returns is another matter: its order is the order
  of Qt's hash table, which Qt leaves open, and the comparison of two such lists with
  \<^verbatim>\<open>!=\<close> depends on it. That listing is the parameter \<open>hashKeys\<close> of the query below.
\<close>

type_synonym 'p qhash = "(string \<times> 'p) list"

definition qhash_insert :: "string \<Rightarrow> 'p \<Rightarrow> 'p qhash \<Rightarrow> 'p qhash" where
  "qhash_insert k v h = AList.update k v h"

definition qhash_remove :: "string \<Rightarrow> 'p qhash \<Rightarrow> 'p qhash" where
  "qhash_remove k h = AList.delete k h"

definition qhash_keys :: "'p qhash \<Rightarrow> string set" where
  "qhash_keys h = set (map fst h)"

definition qhash_contains :: "'p qhash \<Rightarrow> string \<Rightarrow> bool" where
  "qhash_contains h k = (map_of h k \<noteq> None)"

text \<open>The cache \<^verbatim>\<open>aircraftCache\<close>: the record list and the parameters it was loaded for.\<close>

record ('a, 'r, 'l) SimpleRectCache =
  list :: "'a list"
  curRect :: "'r option"
  curMapLayer :: "'l option"

text \<open>The controller's fields, the recurring timer's state and the calls made so far.\<close>

record ('p, 'r, 'l) controller =
  currentState :: State
  whazzupGzipped :: bool
  lastUpdateTime :: qdatetime
  lastServerDownload :: qdatetime
  aircraftCache :: "('p SimConnectAircraft, 'r, 'l) SimpleRectCache"
  simulatorAiRegistrations :: "'p qhash"
  timerActive :: bool
  timerInterval :: cint
  effects :: "'r effect list"

section \<open>Constants and small helpers\<close>

definition MIN_SERVER_DOWNLOAD_INTERVAL_MIN :: int where
  "MIN_SERVER_DOWNLOAD_INTERVAL_MIN = 15"

definition convertFormat :: "OnlineFormat \<Rightarrow> Format" where
  "convertFormat format = (case format of
     ONLINE_FORMAT_VATSIM \<Rightarrow> VATSIM
   | ONLINE_FORMAT_IVAO \<Rightarrow> IVAO)"

text \<open>\<^verbatim>\<open>QDateTime::addSecs\<close>.\<close>

definition addSecs :: "qdatetime \<Rightarrow> int \<Rightarrow> qdatetime" where
  "addSecs t n = t + n * 1000"

text \<open>\<^verbatim>\<open>std::max\<close> on \<^verbatim>\<open>int\<close>: \<^verbatim>\<open>(a < b) ? b : a\<close> with the signed comparison.\<close>

definition std_max :: "cint \<Rightarrow> cint \<Rightarrow> cint" where
  "std_max a b = (if sint a < sint b then b else a)"

definition getNetwork :: "env \<Rightarrow> string" where
  "getNetwork e = (case onlineNetwork e of
     ONLINE_NONE \<Rightarrow> ''''
   | ONLINE_VATSIM \<Rightarrow> ''VATSIM''
   | ONLINE_IVAO \<Rightarrow> ''IVAO''
   | ONLINE_CUSTOM_STATUS \<Rightarrow> ''Custom Network''
   | ONLINE_CUSTOM \<Rightarrow> ''Custom Network'')"

definition emit :: "'r effect list \<Rightarrow> ('p, 'r, 'l) controller \<Rightarrow> ('p, 'r, 'l) controller" where
  "emit es s = s\<lparr>effects := effects s @ es\<rparr>"

section \<open>The recurring timer\<close>

text \<open>The local variable \<^verbatim>\<open>intervalSeconds\<close> of \<^verbatim>\<open>startDownloadTimer\<close>.\<close>

definition intervalSeconds :: "env \<Rightarrow> cint" where
  "intervalSeconds e =
     (if onlineNetwork e = ONLINE_CUSTOM \<or> onlineNetwork e = ONLINE_CUSTOM_STATUS
      then onlineReloadTimeSeconds e
      else
        let reloadFromCfg = onlineReloadTimeSecondsConfig e in
        if reloadFromCfg = - 1
        then std_max (reloadMinutesFromWhazzup e * 60) 60
        else std_max reloadFromCfg 60)"

text \<open>\<^verbatim>\<open>startDownloadTimer\<close>: stop, set the interval in milliseconds, start.\<close>

definition startDownloadTimer :: "env \<Rightarrow> ('p, 'r, 'l) controller \<Rightarrow> ('p, 'r, 'l) controller" where
  "startDownloadTimer e s =
     (let s1 = s\<lparr>timerActive := False\<rparr>;
          s2 = s1\<lparr>timerInterval := intervalSeconds e * 1000\<rparr>
      in s2\<lparr>timerActive := True\<rparr>)"

section \<open>The download chain\<close>

text \<open>\<^verbatim>\<open>stopAllProcesses\<close>.\<close>

definition stopAllProcesses :: "('p, 'r, 'l) controller \<Rightarrow> ('p, 'r, 'l) controller" where
  "stopAllProcesses s =
     (let s1 = emit [CancelDownload] s;
          s2 = s1\<lparr>timerActive := False\<rparr>;
          s3 = s2\<lparr>currentState := NONE\<rparr>
      in s3\<lparr>simulatorAiRegistrations := []\<rparr>)"

text \<open>
  \<^verbatim>\<open>startDownloadInternal\<close>. The call \<^verbatim>\<open>getWhazzupUrlFromStatus(whazzupGzipped)\<close> returns the
  URL and writes the flag through its reference parameter.
\<close>

definition startDownloadInternal :: "env \<Rightarrow> ('p, 'r, 'l) controller \<Rightarrow> ('p, 'r, 'l) controller" where
  "startDownloadInternal e s =
     (let s1 = stopAllProcesses s in
      if onlineNetwork e = ONLINE_NONE then s1
      else
        let s2 = s1\<lparr>whazzupGzipped := whazzupUrlFromStatusGzipped e\<rparr> in
        if currentState s2 = NONE then
          let s3 = (if \<not> optionsNoUserAgent e
                    then emit [SetDefaultUserAgentShort ('' Config/'' @ getNetwork e)] s2
                    else s2);
              (url, s4) =
                (if whazzupUrlFromStatus e = [] \<and> onlineStatusUrl e \<noteq> []
                 then (onlineStatusUrl e, s3\<lparr>currentState := DOWNLOADING_STATUS\<rparr>)
                 else if onlineWhazzupUrl e \<noteq> [] \<or> whazzupUrlFromStatus e \<noteq> []
                 then ((if whazzupUrlFromStatus e = [] then onlineWhazzupUrl e
                        else whazzupUrlFromStatus e),
                       s3\<lparr>currentState := DOWNLOADING_WHAZZUP\<rparr>)
                 else ([], s3))
          in if url \<noteq> [] then emit [SetUrl url, SingleShotStartDownload] s4 else s4
        else s2)"

definition startProcessing :: "env \<Rightarrow> ('p, 'r, 'l) controller \<Rightarrow> ('p, 'r, 'l) controller" where
  "startProcessing e s = startDownloadInternal e s"

text \<open>
  Modelled from the spec: \<^verbatim>\<open>SimpleRectCache::clear\<close>, whose source is not part of the file
  under verification. The spec's \<open>clear()\<close> "empties the cache": no records and no region
  or layer the cache would be valid for.
\<close>

definition SimpleRectCache_clear :: "('a, 'r, 'l) SimpleRectCache \<Rightarrow> ('a, 'r, 'l) SimpleRectCache" where
  "SimpleRectCache_clear c = c\<lparr>list := [], curRect := None, curMapLayer := None\<rparr>"

text \<open>
  The tail shared by the branches of \<^verbatim>\<open>downloadFinished\<close> that end a cycle:
  \<^verbatim>\<open>startDownloadTimer(); currentState = NONE; lastUpdateTime = QDateTime::currentDateTime();\<close>
  with \<open>now\<close> the clock reading taken at that statement.
\<close>

definition finishCycle :: "env \<Rightarrow> qdatetime \<Rightarrow> ('p, 'r, 'l) controller \<Rightarrow> ('p, 'r, 'l) controller" where
  "finishCycle e now s =
     (let s1 = startDownloadTimer e s;
          s2 = s1\<lparr>currentState := NONE\<rparr>
      in s2\<lparr>lastUpdateTime := now\<rparr>)"

text \<open>\<^verbatim>\<open>aircraftCache.clear(); simulatorAiRegistrations.clear();\<close>\<close>

definition clearCaches :: "('p, 'r, 'l) controller \<Rightarrow> ('p, 'r, 'l) controller" where
  "clearCaches s =
     (let s1 = s\<lparr>aircraftCache := SimpleRectCache_clear (aircraftCache s)\<rparr>
      in s1\<lparr>simulatorAiRegistrations := []\<rparr>)"

text \<open>
  \<^verbatim>\<open>downloadFinished(data, url)\<close>, one branch per stage. In the whazzup branch the
  condition \<^verbatim>\<open>!url.isEmpty() && lastServerDownload < currentDateTime().addSecs(-15 * 60)\<close>
  reads the clock only when the URL is not empty, so the time stamp that follows is the
  slot's first clock reading when the URL is empty and its second otherwise.
\<close>

definition downloadFinished ::
  "env \<Rightarrow> string \<Rightarrow> string \<Rightarrow> ('p, 'r, 'l) controller \<Rightarrow> ('p, 'r, 'l) controller" where
  "downloadFinished e data url s =
     (if currentState s = DOWNLOADING_STATUS then
        let s1 = emit [ReadFromStatus data] s;
            s2 = s1\<lparr>whazzupGzipped := whazzupUrlFromStatusGzipped e\<rparr>;
            s3 = (if messageFromStatus e \<noteq> [] then emit [SingleShotShowMessageDialog] s2
                  else s2)
        in if whazzupUrlFromStatus e \<noteq> [] then
             emit [SetUrl (whazzupUrlFromStatus e), SingleShotStartDownload]
               (s3\<lparr>currentState := DOWNLOADING_WHAZZUP\<rparr>)
           else finishCycle e (currentDateTime1 e) s3
      else if currentState s = DOWNLOADING_WHAZZUP then
        let whazzupData = (if whazzupGzipped s then snd (gzipDecompress e data) else data);
            s1 = emit [ReadFromWhazzup whazzupData (convertFormat (onlineFormat e))] s
        in if readFromWhazzupResult e then
             let whazzupVoiceUrl = whazzupVoiceUrlFromStatus e in
             if whazzupVoiceUrl \<noteq> [] \<and>
                lastServerDownload s1 <
                  addSecs (currentDateTime1 e) (- MIN_SERVER_DOWNLOAD_INTERVAL_MIN * 60)
             then
               emit [SetUrl whazzupVoiceUrl, SingleShotStartDownload]
                 (s1\<lparr>currentState := DOWNLOADING_WHAZZUP_SERVERS\<rparr>)
             else
               let now = (if whazzupVoiceUrl \<noteq> [] then currentDateTime2 e
                          else currentDateTime1 e)
               in emit [EmitOnlineClientAndAtcUpdated True True]
                    (clearCaches (finishCycle e now s1))
           else finishCycle e (currentDateTime1 e) s1
      else if currentState s = DOWNLOADING_WHAZZUP_SERVERS then
        let s1 = emit [ReadServersFromWhazzup data (convertFormat (onlineFormat e))] s;
            s2 = s1\<lparr>lastServerDownload := currentDateTime1 e\<rparr>
        in emit [EmitOnlineClientAndAtcUpdated True True, EmitOnlineServersUpdated True True]
             (clearCaches (finishCycle e (currentDateTime2 e) s2))
      else s)"

text \<open>\<^verbatim>\<open>downloadFailed(error, url)\<close>: stop, modal warning box, start again.\<close>

definition downloadFailed ::
  "env \<Rightarrow> string \<Rightarrow> string \<Rightarrow> ('p, 'r, 'l) controller \<Rightarrow> ('p, 'r, 'l) controller" where
  "downloadFailed e error url s =
     (let s1 = stopAllProcesses s;
          s2 = emit [MessageBoxWarning url error] s1
      in startProcessing e s2)"

text \<open>The signals among the calls, for statements about what a slot notifies.\<close>

fun isSignal :: "'r effect \<Rightarrow> bool" where
  "isSignal (EmitOnlineClientAndAtcUpdated _ _) = True"
| "isSignal (EmitOnlineServersUpdated _ _) = True"
| "isSignal _ = False"

section \<open>The spatial query\<close>

text \<open>
  What \<^verbatim>\<open>getAircraft\<close> reads from outside the controller: the simulator's user and AI
  aircraft (\<^verbatim>\<open>NavApp\<close>), the rows the prepared bounding-box query returns for a rectangle
  (already converted by \<^verbatim>\<open>fillAircraftFromClient\<close>), the geometry helpers
  \<^verbatim>\<open>query::splitAtAntiMeridian\<close> (with the two inflation constants applied),
  \<^verbatim>\<open>Pos::distanceMeterTo\<close> and \<^verbatim>\<open>atools::geo::nmToMeter\<close>, the layer comparison
  \<^verbatim>\<open>hasSameQueryParametersWaypoint\<close>, and \<open>rectCovered cur rect\<close>: the inflated rectangle
  \<open>cur\<close> the cache was loaded for contains \<open>rect\<close>. Distances are real numbers here; the
  rounding of \<^verbatim>\<open>float\<close> is not modelled. \<open>hashKeys\<close> is \<^verbatim>\<open>QHash::keys()\<close>: the keys of a
  hash as the list Qt returns, in Qt's order. Nothing is assumed about that order, so
  two hashes with the same key set may or may not have the same key list.
\<close>

record ('p, 'r, 'l) sim =
  userAircraft :: "'p SimConnectAircraft"
  userAircraftIsDebug :: bool
  isConnected :: bool
  aiAircraft :: "'p SimConnectAircraft list"
  aircraftByRect :: "'r \<Rightarrow> 'p SimConnectAircraft list"
  splitAtAntiMeridian :: "'r \<Rightarrow> 'r list"
  distanceMeterTo :: "'p \<Rightarrow> 'p \<Rightarrow> real"
  nmToMeter :: "int \<Rightarrow> int"
  hasSameQueryParametersWaypoint :: "'l \<Rightarrow> 'l \<Rightarrow> bool"
  rectCovered :: "'r \<Rightarrow> 'r \<Rightarrow> bool"
  hashKeys :: "'p qhash \<Rightarrow> string list"

text \<open>\<^verbatim>\<open>static const int MIN_DISTANCE_DUPLICATE = atools::geo::nmToMeter(30);\<close>\<close>

definition MIN_DISTANCE_DUPLICATE :: "('p, 'r, 'l) sim \<Rightarrow> int" where
  "MIN_DISTANCE_DUPLICATE g = nmToMeter g 30"

definition queryMaxRows :: nat where
  "queryMaxRows = 5000"

text \<open>
  Modelled from the spec: \<^verbatim>\<open>SimpleRectCache::updateCache\<close>, whose source is not part of the
  file under verification. By the spec a lazy query takes the cache as it is, and the
  cache is valid only for the region and layer parameters it was last populated for:
  a query that is not lazy and whose rectangle is not covered, or whose layer has other
  query parameters, empties the list and remembers the new parameters.
\<close>

definition SimpleRectCache_updateCache ::
  "('p, 'r, 'l) sim \<Rightarrow> 'r \<Rightarrow> 'l \<Rightarrow> bool \<Rightarrow> ('a, 'r, 'l) SimpleRectCache \<Rightarrow> ('a, 'r, 'l) SimpleRectCache" where
  "SimpleRectCache_updateCache g rect mapLayer lazy c =
     (if lazy then c
      else
        (case (curRect c, curMapLayer c) of
           (Some r, Some l) \<Rightarrow>
             if rectCovered g r rect \<and> hasSameQueryParametersWaypoint g l mapLayer then c
             else c\<lparr>list := [], curRect := Some rect, curMapLayer := Some mapLayer\<rparr>
         | _ \<Rightarrow> c\<lparr>list := [], curRect := Some rect, curMapLayer := Some mapLayer\<rparr>))"

text \<open>
  Modelled from the spec: \<^verbatim>\<open>SimpleRectCache::validate\<close>, whose source is not part of the
  file under verification. By the spec it applies the row-count ceiling: the list is
  truncated to at most the maximum row count.
\<close>

definition SimpleRectCache_validate :: "nat \<Rightarrow> ('a, 'r, 'l) SimpleRectCache \<Rightarrow> ('a, 'r, 'l) SimpleRectCache" where
  "SimpleRectCache_validate n c = c\<lparr>list := take n (list c)\<rparr>"

text \<open>
  The registrations of the simulator's aircraft, \<^verbatim>\<open>curRegistrations\<close>: the user aircraft,
  then the AI aircraft when connected (or debugging), without the empty registration.
\<close>

fun insertRegistrations :: "'p SimConnectAircraft list \<Rightarrow> 'p qhash \<Rightarrow> 'p qhash" where
  "insertRegistrations [] h = h"
| "insertRegistrations (aircraft # rest) h =
     insertRegistrations rest
       (qhash_insert (airplaneRegistration aircraft) (position aircraft) h)"

definition curRegistrations :: "('p, 'r, 'l) sim \<Rightarrow> 'p qhash" where
  "curRegistrations g =
     (let h1 = qhash_insert (airplaneRegistration (userAircraft g))
                 (position (userAircraft g)) [];
          h2 = (if isConnected g \<or> userAircraftIsDebug g
                then insertRegistrations (aiAircraft g) h1 else h1)
      in qhash_remove [] h2)"

text \<open>
  The condition under which a row is appended:
  \<^verbatim>\<open>!cur.contains(reg) || pos.distanceMeterTo(cur.value(reg)) > MIN_DISTANCE_DUPLICATE\<close>.
\<close>

definition notDuplicate :: "('p, 'r, 'l) sim \<Rightarrow> 'p qhash \<Rightarrow> 'p SimConnectAircraft \<Rightarrow> bool" where
  "notDuplicate g cur aircraft =
     (\<not> qhash_contains cur (airplaneRegistration aircraft) \<or>
      (case map_of cur (airplaneRegistration aircraft) of
         Some p \<Rightarrow> distanceMeterTo g (position aircraft) p > real_of_int (MIN_DISTANCE_DUPLICATE g)
       | None \<Rightarrow> False))"

text \<open>The inner loop \<^verbatim>\<open>while(aircraftByRectQuery->next())\<close> over the rows of one query.\<close>

fun appendRows ::
  "('p, 'r, 'l) sim \<Rightarrow> 'p qhash \<Rightarrow> 'p SimConnectAircraft list \<Rightarrow> 'p SimConnectAircraft list
     \<Rightarrow> 'p SimConnectAircraft list" where
  "appendRows g cur [] acc = acc"
| "appendRows g cur (aircraft # rows) acc =
     appendRows g cur rows (if notDuplicate g cur aircraft then acc @ [aircraft] else acc)"

text \<open>The outer loop over the rectangles: bind, execute, read the rows.\<close>

fun queryRects ::
  "('p, 'r, 'l) sim \<Rightarrow> 'p qhash \<Rightarrow> 'r list \<Rightarrow> ('p, 'r, 'l) controller \<Rightarrow> ('p, 'r, 'l) controller" where
  "queryRects g cur [] s = s"
| "queryRects g cur (r # rs) s =
     (let s1 = emit [ExecAircraftByRectQuery r] s;
          c = aircraftCache s1;
          s2 = s1\<lparr>aircraftCache := c\<lparr>list := appendRows g cur (aircraftByRect g r) (list c)\<rparr>\<rparr>
      in queryRects g cur rs s2)"

text \<open>
  \<^verbatim>\<open>getAircraft(rect, mapLayer, lazy)\<close> up to the registration check
  \<^verbatim>\<open>if(simulatorAiRegistrations.keys() != curRegistrations.keys())\<close>, a comparison of two
  lists, element by element.
\<close>

definition getAircraft_check ::
  "('p, 'r, 'l) sim \<Rightarrow> 'r \<Rightarrow> 'l \<Rightarrow> bool \<Rightarrow> ('p, 'r, 'l) controller \<Rightarrow> ('p, 'r, 'l) controller" where
  "getAircraft_check g rect mapLayer lazy s =
     (let s1 = s\<lparr>aircraftCache :=
                   SimpleRectCache_updateCache g rect mapLayer lazy (aircraftCache s)\<rparr>
      in if hashKeys g (simulatorAiRegistrations s1) \<noteq> hashKeys g (curRegistrations g)
         then s1\<lparr>aircraftCache := SimpleRectCache_clear (aircraftCache s1)\<rparr>
         else s1)"

text \<open>The reload \<^verbatim>\<open>if(aircraftCache.list.isEmpty() && !lazy)\<close>.\<close>

definition getAircraft_load ::
  "('p, 'r, 'l) sim \<Rightarrow> 'r \<Rightarrow> bool \<Rightarrow> ('p, 'r, 'l) controller \<Rightarrow> ('p, 'r, 'l) controller" where
  "getAircraft_load g rect lazy s =
     (if list (aircraftCache s) = [] \<and> \<not> lazy
      then (queryRects g (curRegistrations g) (splitAtAntiMeridian g rect) s)
             \<lparr>simulatorAiRegistrations := curRegistrations g\<rparr>
      else s)"

text \<open>\<^verbatim>\<open>getAircraft\<close>: the returned list (the cache's own) and the new state.\<close>

definition getAircraft ::
  "('p, 'r, 'l) sim \<Rightarrow> 'r \<Rightarrow> 'l \<Rightarrow> bool \<Rightarrow> ('p, 'r, 'l) controller
     \<Rightarrow> 'p SimConnectAircraft list \<times> ('p, 'r, 'l) controller" where
  "getAircraft g rect mapLayer lazy s =
     (let s1 = getAircraft_check g rect mapLayer lazy s;
          s2 = getAircraft_load g rect lazy s1;
          s3 = s2\<lparr>aircraftCache := SimpleRectCache_validate queryMaxRows (aircraftCache s2)\<rparr>
      in (list (aircraftCache s3), s3))"

section \<open>Sample inputs\<close>

text \<open>
  Concrete inputs at which the theorems below are instantiated: a public network in
  automatic reload mode whose status file named a whazzup URL and no voice URL, and a
  controller waiting for whazzup data with one cached aircraft. Positions are integers
  on a line, rectangles and layers are numbered.
\<close>

definition sampleEnv :: env where
  "sampleEnv = \<lparr>onlineNetwork = ONLINE_VATSIM, onlineFormat = ONLINE_FORMAT_VATSIM,
     onlineStatusUrl = ''http://status'', onlineWhazzupUrl = [],
     onlineReloadTimeSeconds = 120, onlineReloadTimeSecondsConfig = - 1,
     optionsNoUserAgent = False, whazzupUrlFromStatus = ''http://whazzup'',
     whazzupUrlFromStatusGzipped = False, messageFromStatus = [],
     readFromWhazzupResult = True, whazzupVoiceUrlFromStatus = [],
     reloadMinutesFromWhazzup = 2, gzipDecompress = (\<lambda>d. (True, d)),
     currentDateTime1 = 900000, currentDateTime2 = 900001\<rparr>"

definition sampleAircraft :: "int SimConnectAircraft" where
  "sampleAircraft = \<lparr>objectId = 1, airplaneRegistration = ''N12345'', position = 0\<rparr>"

definition sampleController :: "(int, nat, nat) controller" where
  "sampleController = \<lparr>currentState = DOWNLOADING_WHAZZUP, whazzupGzipped = False,
     lastUpdateTime = 0, lastServerDownload = 0,
     aircraftCache = \<lparr>list = [sampleAircraft], curRect = Some 0, curMapLayer = Some 0\<rparr>,
     simulatorAiRegistrations = [(''N12345'', 0)],
     timerActive = False, timerInterval = 0, effects = []\<rparr>"

text \<open>The same environment with a voice (servers) URL in the status data.\<close>

definition sampleVoiceEnv :: env where
  "sampleVoiceEnv = sampleEnv\<lparr>whazzupVoiceUrlFromStatus := ''http://voice''\<rparr>"

text \<open>
  A simulator with the user aircraft N12345 at 0 and one AI aircraft, a database that
  returns four rows for rectangle 0 (the user's registration 1000 m, 60000 m and exactly
  30 NM away, and a registration the simulator does not know), no split of the
  rectangle, the distance on a line, and 1852 m to the nautical mile. Its hashes list
  their keys in the order of insertion.
\<close>

definition sampleSim :: "(int, nat, nat) sim" where
  "sampleSim = \<lparr>userAircraft = \<lparr>objectId = 0, airplaneRegistration = ''N12345'', position = 0\<rparr>,
     userAircraftIsDebug = False, isConnected = True,
     aiAircraft = [\<lparr>objectId = 2, airplaneRegistration = ''DABCD'', position = 100000\<rparr>],
     aircraftByRect = (\<lambda>r. if r = 0
        then [\<lparr>objectId = 11, airplaneRegistration = ''N12345'', position = 1000\<rparr>,
              \<lparr>objectId = 12, airplaneRegistration = ''N12345'', position = 60000\<rparr>,
              \<lparr>objectId = 13, airplaneRegistration = ''GXYZ'', position = 5\<rparr>,
              \<lparr>objectId = 14, airplaneRegistration = ''N12345'', position = 55560\<rparr>]
        else []),
     splitAtAntiMeridian = (\<lambda>r. [r]),
     distanceMeterTo = (\<lambda>p q. real_of_int \<bar>p - q\<bar>),
     nmToMeter = (\<lambda>n. n * 1852),
     hasSameQueryParametersWaypoint = (=),
     rectCovered = (=),
     hashKeys = map fst\<rparr>"

text \<open>The same simulator over a crowded database: two rectangles of 3000 rows each.\<close>

definition sampleCrowdedSim :: "(int, nat, nat) sim" where
  "sampleCrowdedSim = sampleSim\<lparr>
     aircraftByRect := (\<lambda>r. replicate 3000
        \<lparr>objectId = 13, airplaneRegistration = ''GXYZ'', position = 5\<rparr>),
     splitAtAntiMeridian := (\<lambda>r. [r, r + 1])\<rparr>"

section \<open>Field-wise effect of the building blocks\<close>

lemma emit_fields:
  "currentState (emit es s) = currentState s"
  "whazzupGzipped (emit es s) = whazzupGzipped s"
  "lastUpdateTime (emit es s) = lastUpdateTime s"
  "lastServerDownload (emit es s) = lastServerDownload s"
  "aircraftCache (emit es s) = aircraftCache s"
  "simulatorAiRegistrations (emit es s) = simulatorAiRegistrations s"
  "timerActive (emit es s) = timerActive s"
  "timerInterval (emit es s) = timerInterval s"
  "effects (emit es s) = effects s @ es"
  by (simp_all add: emit_def)

lemma finishCycle_fields:
  "currentState (finishCycle e now s) = NONE"
  "whazzupGzipped (finishCycle e now s) = whazzupGzipped s"
  "lastUpdateTime (finishCycle e now s) = now"
  "lastServerDownload (finishCycle e now s) = lastServerDownload s"
  "aircraftCache (finishCycle e now s) = aircraftCache s"
  "simulatorAiRegistrations (finishCycle e now s) = simulatorAiRegistrations s"
  "timerActive (finishCycle e now s)"
  "timerInterval (finishCycle e now s) = intervalSeconds e * 1000"
  "effects (finishCycle e now s) = effects s"
  by (simp_all add: finishCycle_def startDownloadTimer_def Let_def)

lemma clearCaches_fields:
  "currentState (clearCaches s) = currentState s"
  "whazzupGzipped (clearCaches s) = whazzupGzipped s"
  "lastUpdateTime (clearCaches s) = lastUpdateTime s"
  "lastServerDownload (clearCaches s) = lastServerDownload s"
  "aircraftCache (clearCaches s) = SimpleRectCache_clear (aircraftCache s)"
  "simulatorAiRegistrations (clearCaches s) = []"
  "timerActive (clearCaches s) = timerActive s"
  "timerInterval (clearCaches s) = timerInterval s"
  "effects (clearCaches s) = effects s"
  by (simp_all add: clearCaches_def Let_def)

lemma sampleEnv_interval: "intervalSeconds sampleEnv * 1000 = 120000"
  by (simp add: intervalSeconds_def sampleEnv_def std_max_def)

lemma stopAllProcesses_fields:
  "currentState (stopAllProcesses s) = NONE"
  "whazzupGzipped (stopAllProcesses s) = whazzupGzipped s"
  "lastUpdateTime (stopAllProcesses s) = lastUpdateTime s"
  "lastServerDownload (stopAllProcesses s) = lastServerDownload s"
  "aircraftCache (stopAllProcesses s) = aircraftCache s"
  "simulatorAiRegistrations (stopAllProcesses s) = []"
  "\<not> timerActive (stopAllProcesses s)"
  "timerInterval (stopAllProcesses s) = timerInterval s"
  "effects (stopAllProcesses s) = effects s @ [CancelDownload]"
  by (simp_all add: stopAllProcesses_def Let_def emit_def)

lemma startDownloadInternal_frame:
  "aircraftCache (startDownloadInternal e s) = aircraftCache s"
  "simulatorAiRegistrations (startDownloadInternal e s) = []"
  "\<not> timerActive (startDownloadInternal e s)"
  "timerInterval (startDownloadInternal e s) = timerInterval s"
  "lastUpdateTime (startDownloadInternal e s) = lastUpdateTime s"
  "lastServerDownload (startDownloadInternal e s) = lastServerDownload s"
  by (simp_all add: startDownloadInternal_def Let_def stopAllProcesses_fields emit_fields
      split: prod.splits)

lemma startDownloadInternal_effects:
  "effects (startDownloadInternal e s) = effects s @ [CancelDownload] @
     (if onlineNetwork e = ONLINE_NONE then []
      else (if optionsNoUserAgent e then []
            else [SetDefaultUserAgentShort ('' Config/'' @ getNetwork e)]) @
        (if whazzupUrlFromStatus e = [] \<and> onlineStatusUrl e \<noteq> []
         then [SetUrl (onlineStatusUrl e), SingleShotStartDownload]
         else if whazzupUrlFromStatus e \<noteq> []
         then [SetUrl (whazzupUrlFromStatus e), SingleShotStartDownload]
         else if onlineWhazzupUrl e \<noteq> []
         then [SetUrl (onlineWhazzupUrl e), SingleShotStartDownload]
         else []))"
  by (simp add: startDownloadInternal_def Let_def stopAllProcesses_fields emit_fields)

lemma startDownloadInternal_stage:
  "currentState (startDownloadInternal e s) =
     (if onlineNetwork e = ONLINE_NONE then NONE
      else if whazzupUrlFromStatus e = [] \<and> onlineStatusUrl e \<noteq> [] then DOWNLOADING_STATUS
      else if whazzupUrlFromStatus e \<noteq> [] \<or> onlineWhazzupUrl e \<noteq> [] then DOWNLOADING_WHAZZUP
      else NONE)"
  by (simp add: startDownloadInternal_def Let_def stopAllProcesses_fields emit_fields)

lemma std_max_sint: "sint (std_max a b) = max (sint a) (sint b)"
  by (simp add: std_max_def max_def)

lemma sint_times_60:
  "- (2 ^ 31) \<le> sint (m :: cint) * 60 \<Longrightarrow> sint m * 60 < 2 ^ 31 \<Longrightarrow> sint (m * 60) = sint m * 60"
  by (simp add: sint_word_mult signed_take_bit_int_eq_self)

section \<open>Whazzup data accepted, no voice URL\<close>

text \<open>
  Claim C1. When the download that finishes is the whazzup stage's, the manager's parser
  accepts the data as newer and the status data has no voice (servers) URL, the slot
  clears the aircraft cache and the remembered registrations, adds to the calls made so
  far exactly the parser call and one signal \<open>onlineClientAndAtcUpdated(true, true)\<close>
  (so no \<open>onlineServersUpdated\<close>), sets the stage to \<open>NONE\<close>, stamps the last update
  time with the clock reading and leaves the timer running with the computed interval.
\<close>

theorem whazzup_accepted_no_voice_url:
  assumes "currentState s = DOWNLOADING_WHAZZUP"
    and "readFromWhazzupResult e"
    and "whazzupVoiceUrlFromStatus e = []"
  shows "aircraftCache (downloadFinished e d url s) = SimpleRectCache_clear (aircraftCache s)
    \<and> list (aircraftCache (downloadFinished e d url s)) = []
    \<and> simulatorAiRegistrations (downloadFinished e d url s) = []
    \<and> effects (downloadFinished e d url s) =
        effects s @ [ReadFromWhazzup (if whazzupGzipped s then snd (gzipDecompress e d) else d)
                       (convertFormat (onlineFormat e)),
                     EmitOnlineClientAndAtcUpdated True True]
    \<and> filter isSignal (drop (length (effects s)) (effects (downloadFinished e d url s))) =
        [EmitOnlineClientAndAtcUpdated True True]
    \<and> currentState (downloadFinished e d url s) = NONE
    \<and> lastUpdateTime (downloadFinished e d url s) = currentDateTime1 e
    \<and> timerActive (downloadFinished e d url s)
    \<and> timerInterval (downloadFinished e d url s) = intervalSeconds e * 1000"
  using assms
  by (simp add: downloadFinished_def Let_def finishCycle_fields clearCaches_fields emit_fields
      SimpleRectCache_clear_def)

theorem whazzup_accepted_no_voice_url_witness:
  "currentState sampleController = DOWNLOADING_WHAZZUP
   \<and> readFromWhazzupResult sampleEnv
   \<and> whazzupVoiceUrlFromStatus sampleEnv = []
   \<and> list (aircraftCache sampleController) = [sampleAircraft]
   \<and> list (aircraftCache (downloadFinished sampleEnv ''data'' ''http://whazzup'' sampleController)) = []
   \<and> simulatorAiRegistrations (downloadFinished sampleEnv ''data'' ''http://whazzup'' sampleController) = []
   \<and> effects (downloadFinished sampleEnv ''data'' ''http://whazzup'' sampleController) =
       [ReadFromWhazzup ''data'' VATSIM, EmitOnlineClientAndAtcUpdated True True]
   \<and> currentState (downloadFinished sampleEnv ''data'' ''http://whazzup'' sampleController) = NONE
   \<and> lastUpdateTime (downloadFinished sampleEnv ''data'' ''http://whazzup'' sampleController) = 900000
   \<and> timerActive (downloadFinished sampleEnv ''data'' ''http://whazzup'' sampleController)
   \<and> timerInterval (downloadFinished sampleEnv ''data'' ''http://whazzup'' sampleController) = 120000"
proof -
  have a: "currentState sampleController = DOWNLOADING_WHAZZUP"
    by (simp add: sampleController_def)
  have b: "readFromWhazzupResult sampleEnv"
    by (simp add: sampleEnv_def)
  have c: "whazzupVoiceUrlFromStatus sampleEnv = []"
    by (simp add: sampleEnv_def)
  show ?thesis
    using whazzup_accepted_no_voice_url [OF a b c, of "''data''" "''http://whazzup''"]
      a b c sampleEnv_interval
    by (simp add: sampleController_def sampleEnv_def convertFormat_def SimpleRectCache_clear_def)
qed

section \<open>Whazzup data rejected as not newer\<close>

text \<open>
  Claim C4. When the whazzup stage's download finishes and the manager's parser rejects
  the data as not newer than what is stored, the slot makes the parser call and nothing
  else: no signal is emitted, the aircraft cache and the remembered registrations stay
  as they are, and the cycle still ends (timer running with the computed interval, stage
  \<open>NONE\<close>, last update time stamped).
\<close>

theorem whazzup_rejected:
  assumes "currentState s = DOWNLOADING_WHAZZUP"
    and "\<not> readFromWhazzupResult e"
  shows "effects (downloadFinished e d url s) =
        effects s @ [ReadFromWhazzup (if whazzupGzipped s then snd (gzipDecompress e d) else d)
                       (convertFormat (onlineFormat e))]
    \<and> filter isSignal (drop (length (effects s)) (effects (downloadFinished e d url s))) = []
    \<and> aircraftCache (downloadFinished e d url s) = aircraftCache s
    \<and> simulatorAiRegistrations (downloadFinished e d url s) = simulatorAiRegistrations s
    \<and> timerActive (downloadFinished e d url s)
    \<and> timerInterval (downloadFinished e d url s) = intervalSeconds e * 1000
    \<and> currentState (downloadFinished e d url s) = NONE
    \<and> lastUpdateTime (downloadFinished e d url s) = currentDateTime1 e"
  using assms
  by (simp add: downloadFinished_def Let_def finishCycle_fields emit_fields)

theorem whazzup_rejected_witness:
  "currentState sampleController = DOWNLOADING_WHAZZUP
   \<and> readFromWhazzupResult (sampleEnv\<lparr>readFromWhazzupResult := False\<rparr>) = False
   \<and> effects (downloadFinished (sampleEnv\<lparr>readFromWhazzupResult := False\<rparr>) ''data'' ''http://whazzup'' sampleController) =
       [ReadFromWhazzup ''data'' VATSIM]
   \<and> list (aircraftCache (downloadFinished (sampleEnv\<lparr>readFromWhazzupResult := False\<rparr>) ''data'' ''http://whazzup'' sampleController)) = [sampleAircraft]
   \<and> simulatorAiRegistrations (downloadFinished (sampleEnv\<lparr>readFromWhazzupResult := False\<rparr>) ''data'' ''http://whazzup'' sampleController) = [(''N12345'', 0)]
   \<and> timerActive (downloadFinished (sampleEnv\<lparr>readFromWhazzupResult := False\<rparr>) ''data'' ''http://whazzup'' sampleController)
   \<and> timerInterval (downloadFinished (sampleEnv\<lparr>readFromWhazzupResult := False\<rparr>) ''data'' ''http://whazzup'' sampleController) = 120000
   \<and> currentState (downloadFinished (sampleEnv\<lparr>readFromWhazzupResult := False\<rparr>) ''data'' ''http://whazzup'' sampleController) = NONE
   \<and> lastUpdateTime (downloadFinished (sampleEnv\<lparr>readFromWhazzupResult := False\<rparr>) ''data'' ''http://whazzup'' sampleController) = 900000"
proof -
  have a: "currentState sampleController = DOWNLOADING_WHAZZUP"
    by (simp add: sampleController_def)
  have b: "\<not> readFromWhazzupResult (sampleEnv\<lparr>readFromWhazzupResult := False\<rparr>)"
    by simp
  have i: "intervalSeconds (sampleEnv\<lparr>readFromWhazzupResult := False\<rparr>) * 1000 = 120000"
    by (simp add: intervalSeconds_def sampleEnv_def std_max_def)
  show ?thesis
    using whazzup_rejected [OF a b, of "''data''" "''http://whazzup''"] a i
    by (simp add: sampleController_def sampleEnv_def convertFormat_def)
qed

section \<open>The interval of the recurring timer\<close>

text \<open>
  Claim C3. The interval \<^verbatim>\<open>startDownloadTimer\<close> computes follows the precedence: on a custom
  network (with or without status file) it is the configured reload time in seconds as
  it is, without a floor; otherwise, when the override of the configuration file is the
  sentinel \<open>-1\<close>, it is the maximum of the whazzup file's reload minutes times 60 and 60;
  otherwise it is the maximum of the override and 60. The values are C++ \<^verbatim>\<open>int\<close>s: the
  product is the machine product, and it is the integer product whenever that fits into
  32 bits. The timer is started with this interval in milliseconds. The witness
  evaluates: custom with 120 s gives 120 s; no override and an advice below one minute
  gives 60 s; an override of 500 s gives 500 s.
\<close>

theorem interval_precedence:
  "(onlineNetwork e = ONLINE_CUSTOM \<or> onlineNetwork e = ONLINE_CUSTOM_STATUS \<longrightarrow>
      intervalSeconds e = onlineReloadTimeSeconds e)
   \<and> (onlineNetwork e \<noteq> ONLINE_CUSTOM \<and> onlineNetwork e \<noteq> ONLINE_CUSTOM_STATUS \<and>
      onlineReloadTimeSecondsConfig e = - 1 \<longrightarrow>
      intervalSeconds e = std_max (reloadMinutesFromWhazzup e * 60) 60
      \<and> sint (intervalSeconds e) = max (sint (reloadMinutesFromWhazzup e * 60)) 60
      \<and> (- (2 ^ 31) \<le> sint (reloadMinutesFromWhazzup e) * 60 \<and>
           sint (reloadMinutesFromWhazzup e) * 60 < 2 ^ 31 \<longrightarrow>
           sint (intervalSeconds e) = max (sint (reloadMinutesFromWhazzup e) * 60) 60))
   \<and> (onlineNetwork e \<noteq> ONLINE_CUSTOM \<and> onlineNetwork e \<noteq> ONLINE_CUSTOM_STATUS \<and>
      onlineReloadTimeSecondsConfig e \<noteq> - 1 \<longrightarrow>
      intervalSeconds e = std_max (onlineReloadTimeSecondsConfig e) 60
      \<and> sint (intervalSeconds e) = max (sint (onlineReloadTimeSecondsConfig e)) 60)
   \<and> timerInterval (startDownloadTimer e s) = intervalSeconds e * 1000
   \<and> timerActive (startDownloadTimer e s)"
  by (simp add: intervalSeconds_def Let_def std_max_sint sint_times_60 startDownloadTimer_def)

theorem interval_precedence_witness:
  "intervalSeconds (sampleEnv\<lparr>onlineNetwork := ONLINE_CUSTOM\<rparr>) = 120
   \<and> sint (intervalSeconds (sampleEnv\<lparr>onlineNetwork := ONLINE_CUSTOM\<rparr>)) = 120
   \<and> intervalSeconds (sampleEnv\<lparr>onlineNetwork := ONLINE_CUSTOM_STATUS, onlineReloadTimeSeconds := 5\<rparr>) = 5
   \<and> sint (intervalSeconds (sampleEnv\<lparr>reloadMinutesFromWhazzup := 0\<rparr>)) = 60
   \<and> sint (intervalSeconds sampleEnv) = 120
   \<and> sint (intervalSeconds (sampleEnv\<lparr>onlineReloadTimeSecondsConfig := 500\<rparr>)) = 500
   \<and> sint (intervalSeconds (sampleEnv\<lparr>onlineReloadTimeSecondsConfig := 30\<rparr>)) = 60
   \<and> timerInterval (startDownloadTimer (sampleEnv\<lparr>onlineReloadTimeSecondsConfig := 500\<rparr>) sampleController) = 500000"
  using interval_precedence [of "sampleEnv\<lparr>onlineNetwork := ONLINE_CUSTOM\<rparr>" sampleController]
    interval_precedence [of "sampleEnv\<lparr>onlineNetwork := ONLINE_CUSTOM_STATUS, onlineReloadTimeSeconds := 5\<rparr>" sampleController]
    interval_precedence [of "sampleEnv\<lparr>reloadMinutesFromWhazzup := 0\<rparr>" sampleController]
    interval_precedence [of sampleEnv sampleController]
    interval_precedence [of "sampleEnv\<lparr>onlineReloadTimeSecondsConfig := 500\<rparr>" sampleController]
    interval_precedence [of "sampleEnv\<lparr>onlineReloadTimeSecondsConfig := 30\<rparr>" sampleController]
  by (simp add: sampleEnv_def std_max_def)

section \<open>Whazzup data accepted, voice URL present\<close>

text \<open>
  The claim C2 as written fails at its boundary: the source tests
  \<^verbatim>\<open>lastServerDownload < currentDateTime().addSecs(-15 * 60)\<close>, which is false when exactly
  15 minutes have passed. At that input (voice URL present, data accepted, last server
  download at 0 ms and the clock at 900000 ms) the slot does not go to the servers stage
  and issues no fetch; it ends the cycle.
\<close>

theorem servers_fetch_at_15_minutes_counterexample:
  "currentState sampleController = DOWNLOADING_WHAZZUP
   \<and> readFromWhazzupResult sampleVoiceEnv
   \<and> whazzupVoiceUrlFromStatus sampleVoiceEnv = ''http://voice''
   \<and> currentDateTime1 sampleVoiceEnv - lastServerDownload sampleController =
       MIN_SERVER_DOWNLOAD_INTERVAL_MIN * 60 * 1000
   \<and> currentState (downloadFinished sampleVoiceEnv ''data'' ''http://whazzup'' sampleController) = NONE
   \<and> effects (downloadFinished sampleVoiceEnv ''data'' ''http://whazzup'' sampleController) =
       [ReadFromWhazzup ''data'' VATSIM, EmitOnlineClientAndAtcUpdated True True]"
  by (simp add: downloadFinished_def Let_def finishCycle_fields clearCaches_fields emit_fields
      sampleVoiceEnv_def sampleEnv_def sampleController_def convertFormat_def addSecs_def
      MIN_SERVER_DOWNLOAD_INTERVAL_MIN_def)

text \<open>
  Claim C2, amended. When the whazzup stage's download finishes, the data is accepted as
  newer and the status data has a voice (servers) URL: if more than 15 minutes
  (\<open>MIN_SERVER_DOWNLOAD_INTERVAL_MIN\<close>) have passed since the last server download, the
  slot sets the stage to \<open>DOWNLOADING_WHAZZUP_SERVERS\<close>, hands the voice URL to the
  downloader and schedules the download, leaving cache, registrations and timer as they
  are; if at most 15 minutes have passed it does not go to that stage and ends the cycle
  as in the case without voice URL (cache and registrations cleared, one signal
  \<open>onlineClientAndAtcUpdated(true, true)\<close>, stage \<open>NONE\<close>, timer running), the time
  stamp being the slot's second clock reading.
\<close>

theorem whazzup_accepted_voice_url:
  assumes "currentState s = DOWNLOADING_WHAZZUP"
    and "readFromWhazzupResult e"
    and "whazzupVoiceUrlFromStatus e \<noteq> []"
  shows "(MIN_SERVER_DOWNLOAD_INTERVAL_MIN * 60 * 1000 < currentDateTime1 e - lastServerDownload s \<longrightarrow>
       currentState (downloadFinished e d url s) = DOWNLOADING_WHAZZUP_SERVERS
       \<and> effects (downloadFinished e d url s) =
           effects s @ [ReadFromWhazzup (if whazzupGzipped s then snd (gzipDecompress e d) else d)
                          (convertFormat (onlineFormat e)),
                        SetUrl (whazzupVoiceUrlFromStatus e), SingleShotStartDownload]
       \<and> aircraftCache (downloadFinished e d url s) = aircraftCache s
       \<and> simulatorAiRegistrations (downloadFinished e d url s) = simulatorAiRegistrations s
       \<and> timerActive (downloadFinished e d url s) = timerActive s
       \<and> lastUpdateTime (downloadFinished e d url s) = lastUpdateTime s)
    \<and> (currentDateTime1 e - lastServerDownload s \<le> MIN_SERVER_DOWNLOAD_INTERVAL_MIN * 60 * 1000 \<longrightarrow>
       aircraftCache (downloadFinished e d url s) = SimpleRectCache_clear (aircraftCache s)
       \<and> list (aircraftCache (downloadFinished e d url s)) = []
       \<and> simulatorAiRegistrations (downloadFinished e d url s) = []
       \<and> effects (downloadFinished e d url s) =
           effects s @ [ReadFromWhazzup (if whazzupGzipped s then snd (gzipDecompress e d) else d)
                          (convertFormat (onlineFormat e)),
                        EmitOnlineClientAndAtcUpdated True True]
       \<and> filter isSignal (drop (length (effects s)) (effects (downloadFinished e d url s))) =
           [EmitOnlineClientAndAtcUpdated True True]
       \<and> currentState (downloadFinished e d url s) = NONE
       \<and> lastUpdateTime (downloadFinished e d url s) = currentDateTime2 e
       \<and> timerActive (downloadFinished e d url s)
       \<and> timerInterval (downloadFinished e d url s) = intervalSeconds e * 1000)"
  using assms
  by (simp add: downloadFinished_def Let_def finishCycle_fields clearCaches_fields emit_fields
      SimpleRectCache_clear_def addSecs_def MIN_SERVER_DOWNLOAD_INTERVAL_MIN_def)

theorem whazzup_accepted_voice_url_witness:
  "currentState sampleController = DOWNLOADING_WHAZZUP
   \<and> readFromWhazzupResult sampleVoiceEnv
   \<and> whazzupVoiceUrlFromStatus sampleVoiceEnv = ''http://voice''
   \<and> currentDateTime1 (sampleVoiceEnv\<lparr>currentDateTime1 := 900001\<rparr>) - lastServerDownload sampleController = 900001
   \<and> currentState (downloadFinished (sampleVoiceEnv\<lparr>currentDateTime1 := 900001\<rparr>) ''data'' ''http://whazzup'' sampleController) =
       DOWNLOADING_WHAZZUP_SERVERS
   \<and> effects (downloadFinished (sampleVoiceEnv\<lparr>currentDateTime1 := 900001\<rparr>) ''data'' ''http://whazzup'' sampleController) =
       [ReadFromWhazzup ''data'' VATSIM, SetUrl ''http://voice'', SingleShotStartDownload]
   \<and> list (aircraftCache (downloadFinished (sampleVoiceEnv\<lparr>currentDateTime1 := 900001\<rparr>) ''data'' ''http://whazzup'' sampleController)) =
       [sampleAircraft]
   \<and> currentDateTime1 sampleVoiceEnv - lastServerDownload sampleController = 900000
   \<and> currentState (downloadFinished sampleVoiceEnv ''data'' ''http://whazzup'' sampleController) = NONE
   \<and> list (aircraftCache (downloadFinished sampleVoiceEnv ''data'' ''http://whazzup'' sampleController)) = []
   \<and> lastUpdateTime (downloadFinished sampleVoiceEnv ''data'' ''http://whazzup'' sampleController) = 900001
   \<and> timerActive (downloadFinished sampleVoiceEnv ''data'' ''http://whazzup'' sampleController)"
proof -
  have a: "currentState sampleController = DOWNLOADING_WHAZZUP"
    by (simp add: sampleController_def)
  have b: "readFromWhazzupResult sampleVoiceEnv"
    "readFromWhazzupResult (sampleVoiceEnv\<lparr>currentDateTime1 := 900001\<rparr>)"
    by (simp_all add: sampleVoiceEnv_def sampleEnv_def)
  have c: "whazzupVoiceUrlFromStatus sampleVoiceEnv \<noteq> []"
    "whazzupVoiceUrlFromStatus (sampleVoiceEnv\<lparr>currentDateTime1 := 900001\<rparr>) \<noteq> []"
    by (simp_all add: sampleVoiceEnv_def sampleEnv_def)
  show ?thesis
    using whazzup_accepted_voice_url [OF a b(1) c(1), of "''data''" "''http://whazzup''"]
      whazzup_accepted_voice_url [OF a b(2) c(2), of "''data''" "''http://whazzup''"] a
    by (simp add: sampleVoiceEnv_def sampleEnv_def sampleController_def convertFormat_def
        MIN_SERVER_DOWNLOAD_INTERVAL_MIN_def SimpleRectCache_clear_def)
qed

section \<open>Download failure\<close>

text \<open>
  Claim C8. \<^verbatim>\<open>downloadFailed\<close> needs no condition: it stops everything (the download is
  cancelled, the timer stopped, the stage set to \<open>NONE\<close>, the remembered registrations
  cleared), then shows the modal warning box with URL and error, then runs
  \<^verbatim>\<open>startProcessing\<close> in the same slot. The calls it adds are, in this order, the
  cancellation, the warning box, and the calls of the restart (which begins with its own
  cancellation and, when a URL is configured, ends with scheduling the download). No
  timer is running afterwards and the timer's interval is untouched: the retry is not
  delayed by a backoff. The nested event loop of the modal box is not modelled.
\<close>

theorem download_failed:
  "effects (stopAllProcesses s) = effects s @ [CancelDownload]
   \<and> \<not> timerActive (stopAllProcesses s)
   \<and> currentState (stopAllProcesses s) = NONE
   \<and> simulatorAiRegistrations (stopAllProcesses s) = []
   \<and> startProcessing e (emit [MessageBoxWarning url error] (stopAllProcesses s)) =
       downloadFailed e error url s
   \<and> take 3 (drop (length (effects s)) (effects (downloadFailed e error url s))) =
       [CancelDownload, MessageBoxWarning url error, CancelDownload]
   \<and> \<not> timerActive (downloadFailed e error url s)
   \<and> timerInterval (downloadFailed e error url s) = timerInterval s
   \<and> simulatorAiRegistrations (downloadFailed e error url s) = []
   \<and> effects (downloadFailed e error url s) =
       effects s @ [CancelDownload, MessageBoxWarning url error, CancelDownload] @
       (if onlineNetwork e = ONLINE_NONE then []
        else (if optionsNoUserAgent e then []
              else [SetDefaultUserAgentShort ('' Config/'' @ getNetwork e)]) @
          (if whazzupUrlFromStatus e = [] \<and> onlineStatusUrl e \<noteq> []
           then [SetUrl (onlineStatusUrl e), SingleShotStartDownload]
           else if whazzupUrlFromStatus e \<noteq> []
           then [SetUrl (whazzupUrlFromStatus e), SingleShotStartDownload]
           else if onlineWhazzupUrl e \<noteq> []
           then [SetUrl (onlineWhazzupUrl e), SingleShotStartDownload]
           else []))
   \<and> currentState (downloadFailed e error url s) =
       (if onlineNetwork e = ONLINE_NONE then NONE
        else if whazzupUrlFromStatus e = [] \<and> onlineStatusUrl e \<noteq> [] then DOWNLOADING_STATUS
        else if whazzupUrlFromStatus e \<noteq> [] \<or> onlineWhazzupUrl e \<noteq> [] then DOWNLOADING_WHAZZUP
        else NONE)"
  by (simp add: downloadFailed_def startProcessing_def Let_def stopAllProcesses_fields
      emit_fields startDownloadInternal_frame startDownloadInternal_effects
      startDownloadInternal_stage)

theorem download_failed_witness:
  "effects (downloadFailed sampleEnv ''timeout'' ''http://whazzup'' sampleController) =
     [CancelDownload, MessageBoxWarning ''http://whazzup'' ''timeout'', CancelDownload,
      SetDefaultUserAgentShort '' Config/VATSIM'', SetUrl ''http://whazzup'',
      SingleShotStartDownload]
   \<and> currentState (downloadFailed sampleEnv ''timeout'' ''http://whazzup'' sampleController) =
       DOWNLOADING_WHAZZUP
   \<and> timerActive (downloadFailed sampleEnv ''timeout'' ''http://whazzup'' sampleController) = False
   \<and> simulatorAiRegistrations (downloadFailed sampleEnv ''timeout'' ''http://whazzup'' sampleController) = []
   \<and> effects (downloadFailed (sampleEnv\<lparr>onlineNetwork := ONLINE_NONE\<rparr>) ''timeout'' ''http://whazzup'' sampleController) =
     [CancelDownload, MessageBoxWarning ''http://whazzup'' ''timeout'', CancelDownload]
   \<and> currentState (downloadFailed (sampleEnv\<lparr>onlineNetwork := ONLINE_NONE\<rparr>) ''timeout'' ''http://whazzup'' sampleController) = NONE"
  using download_failed [where s = sampleController and e = sampleEnv
      and error = "''timeout''" and url = "''http://whazzup''"]
    download_failed [where s = sampleController and e = "sampleEnv\<lparr>onlineNetwork := ONLINE_NONE\<rparr>"
      and error = "''timeout''" and url = "''http://whazzup''"]
  by (simp add: sampleEnv_def sampleController_def getNetwork_def)

section \<open>What stopping keeps\<close>

text \<open>
  Claim C10. \<^verbatim>\<open>stopAllProcesses\<close> leaves the aircraft cache, and so its record list, as it
  is: it cancels the download, stops the timer, sets the stage to \<open>NONE\<close> and clears the
  remembered registrations, and changes no other field. The same holds for the whole of
  \<^verbatim>\<open>downloadFailed\<close>: the cached aircraft survive a failed download.
\<close>

theorem stop_keeps_cached_aircraft:
  "aircraftCache (stopAllProcesses s) = aircraftCache s
   \<and> list (aircraftCache (stopAllProcesses s)) = list (aircraftCache s)
   \<and> effects (stopAllProcesses s) = effects s @ [CancelDownload]
   \<and> \<not> timerActive (stopAllProcesses s)
   \<and> currentState (stopAllProcesses s) = NONE
   \<and> simulatorAiRegistrations (stopAllProcesses s) = []
   \<and> whazzupGzipped (stopAllProcesses s) = whazzupGzipped s
   \<and> lastUpdateTime (stopAllProcesses s) = lastUpdateTime s
   \<and> lastServerDownload (stopAllProcesses s) = lastServerDownload s
   \<and> timerInterval (stopAllProcesses s) = timerInterval s
   \<and> aircraftCache (downloadFailed e error url s) = aircraftCache s
   \<and> list (aircraftCache (downloadFailed e error url s)) = list (aircraftCache s)"
  by (simp add: downloadFailed_def startProcessing_def Let_def stopAllProcesses_fields
      emit_fields startDownloadInternal_frame)

theorem stop_keeps_cached_aircraft_witness:
  "list (aircraftCache (stopAllProcesses sampleController)) = [sampleAircraft]
   \<and> simulatorAiRegistrations sampleController = [(''N12345'', 0)]
   \<and> simulatorAiRegistrations (stopAllProcesses sampleController) = []
   \<and> currentState (stopAllProcesses sampleController) = NONE
   \<and> effects (stopAllProcesses sampleController) = [CancelDownload]
   \<and> list (aircraftCache (downloadFailed sampleEnv ''timeout'' ''http://whazzup'' sampleController)) =
       [sampleAircraft]"
  using stop_keeps_cached_aircraft [where s = sampleController and e = sampleEnv
      and error = "''timeout''" and url = "''http://whazzup''"]
  by (simp add: sampleController_def)

section \<open>The spatial query: what its parts do\<close>

lemma appendRows_filter:
  "appendRows g cur rows acc = acc @ filter (notDuplicate g cur) rows"
  by (induction rows arbitrary: acc) simp_all

lemma queryRects_list:
  "list (aircraftCache (queryRects g cur rs s)) =
     list (aircraftCache s) @ filter (notDuplicate g cur) (concat (map (aircraftByRect g) rs))"
  by (induction rs arbitrary: s) (simp_all add: Let_def emit_fields appendRows_filter)

lemma queryRects_effects:
  "effects (queryRects g cur rs s) = effects s @ map ExecAircraftByRectQuery rs"
  by (induction rs arbitrary: s) (simp_all add: Let_def emit_fields)

lemma queryRects_registrations:
  "simulatorAiRegistrations (queryRects g cur rs s) = simulatorAiRegistrations s"
  by (induction rs arbitrary: s) (simp_all add: Let_def emit_fields)

lemma sample_cur: "curRegistrations sampleSim = [(''N12345'', 0), (''DABCD'', 100000)]"
  by (simp add: curRegistrations_def sampleSim_def qhash_insert_def qhash_remove_def Let_def)

lemma sample_hashKeys: "hashKeys sampleSim = map fst"
  by (simp add: sampleSim_def)

lemma sample_keys:
  "hashKeys sampleSim (simulatorAiRegistrations sampleController) \<noteq>
     hashKeys sampleSim (curRegistrations sampleSim)"
  by (simp add: sample_cur sample_hashKeys sampleController_def)

lemma sample_nd: "filter (notDuplicate sampleSim [(''N12345'', 0), (''DABCD'', 100000)]) (aircraftByRect sampleSim 0)
   = [\<lparr>objectId = 12, airplaneRegistration = ''N12345'', position = 60000\<rparr>,
              \<lparr>objectId = 13, airplaneRegistration = ''GXYZ'', position = 5\<rparr>]"
  by (simp add: notDuplicate_def sampleSim_def qhash_contains_def MIN_DISTANCE_DUPLICATE_def)


lemma getAircraft_check_list:
  "list (aircraftCache (getAircraft_check g rect mapLayer lazy s)) =
     (if hashKeys g (simulatorAiRegistrations s) \<noteq> hashKeys g (curRegistrations g) then []
      else list (SimpleRectCache_updateCache g rect mapLayer lazy (aircraftCache s)))"
  by (simp add: getAircraft_check_def Let_def SimpleRectCache_clear_def)

lemma getAircraft_check_fields:
  "effects (getAircraft_check g rect mapLayer lazy s) = effects s"
  "simulatorAiRegistrations (getAircraft_check g rect mapLayer lazy s) = simulatorAiRegistrations s"
  by (simp_all add: getAircraft_check_def Let_def)

lemma updateCache_lazy: "SimpleRectCache_updateCache g rect mapLayer True c = c"
  by (simp add: SimpleRectCache_updateCache_def)

lemma getAircraft_load_lazy: "getAircraft_load g rect True s = s"
  by (simp add: getAircraft_load_def)

lemma getAircraft_load_fields:
  "list (aircraftCache (getAircraft_load g rect lazy s)) =
     (if list (aircraftCache s) = [] \<and> \<not> lazy
      then filter (notDuplicate g (curRegistrations g))
             (concat (map (aircraftByRect g) (splitAtAntiMeridian g rect)))
      else list (aircraftCache s))"
  "effects (getAircraft_load g rect lazy s) =
     (if list (aircraftCache s) = [] \<and> \<not> lazy
      then effects s @ map ExecAircraftByRectQuery (splitAtAntiMeridian g rect)
      else effects s)"
  "simulatorAiRegistrations (getAircraft_load g rect lazy s) =
     (if list (aircraftCache s) = [] \<and> \<not> lazy then curRegistrations g
      else simulatorAiRegistrations s)"
  by (simp_all add: getAircraft_load_def queryRects_list queryRects_effects)

lemma getAircraft_result:
  "fst (getAircraft g rect mapLayer lazy s) =
     take queryMaxRows
       (list (aircraftCache (getAircraft_load g rect lazy (getAircraft_check g rect mapLayer lazy s))))"
  "list (aircraftCache (snd (getAircraft g rect mapLayer lazy s))) = fst (getAircraft g rect mapLayer lazy s)"
  "effects (snd (getAircraft g rect mapLayer lazy s)) =
     effects (getAircraft_load g rect lazy (getAircraft_check g rect mapLayer lazy s))"
  "simulatorAiRegistrations (snd (getAircraft g rect mapLayer lazy s)) =
     simulatorAiRegistrations (getAircraft_load g rect lazy (getAircraft_check g rect mapLayer lazy s))"
  by (simp_all add: getAircraft_def Let_def SimpleRectCache_validate_def)

lemma notDuplicate_iff:
  "notDuplicate g cur a \<longleftrightarrow>
     airplaneRegistration a \<notin> qhash_keys cur \<or>
     (\<exists>p. map_of cur (airplaneRegistration a) = Some p \<and>
          real_of_int (nmToMeter g 30) < distanceMeterTo g (position a) p)"
  by (auto simp: notDuplicate_def qhash_contains_def qhash_keys_def MIN_DISTANCE_DUPLICATE_def
      map_of_eq_None_iff split: option.splits)

lemma sampleCrowded_cur:
  "curRegistrations sampleCrowdedSim = [(''N12345'', 0), (''DABCD'', 100000)]"
  by (simp add: curRegistrations_def sampleCrowdedSim_def sampleSim_def qhash_insert_def
      qhash_remove_def Let_def)

lemma getAircraft_lazy:
  "fst (getAircraft g rect mapLayer True s) =
     (if hashKeys g (simulatorAiRegistrations s) \<noteq> hashKeys g (curRegistrations g) then []
      else take queryMaxRows (list (aircraftCache s)))"
  "effects (snd (getAircraft g rect mapLayer True s)) = effects s"
  "simulatorAiRegistrations (snd (getAircraft g rect mapLayer True s)) = simulatorAiRegistrations s"
  by (simp_all add: getAircraft_result getAircraft_load_lazy getAircraft_check_list
      getAircraft_check_fields updateCache_lazy)

section \<open>A change of the registrations\<close>

text \<open>
  The claim C5 as written fails under \<open>lazy\<close>: the reload is guarded by
  \<^verbatim>\<open>aircraftCache.list.isEmpty() && !lazy\<close>. With remembered registrations \<open>{N12345}\<close>,
  simulator registrations \<open>{N12345, DABCD}\<close>, one cached aircraft and \<open>lazy = true\<close>, the
  query returns the emptied list and executes no database query.
\<close>

theorem registration_change_lazy_counterexample:
  "qhash_keys (simulatorAiRegistrations sampleController) \<noteq> qhash_keys (curRegistrations sampleSim)
   \<and> hashKeys sampleSim (simulatorAiRegistrations sampleController) \<noteq>
       hashKeys sampleSim (curRegistrations sampleSim)
   \<and> list (aircraftCache sampleController) = [sampleAircraft]
   \<and> fst (getAircraft sampleSim 0 0 True sampleController) = []
   \<and> effects (snd (getAircraft sampleSim 0 0 True sampleController)) = effects sampleController
   \<and> effects sampleController = []"
proof -
  have "list (aircraftCache sampleController) = [sampleAircraft]"
    and "effects sampleController = []"
    and "qhash_keys (simulatorAiRegistrations sampleController) \<noteq>
      qhash_keys (curRegistrations sampleSim)"
    by (simp_all add: sampleController_def sample_cur qhash_keys_def)
  with sample_keys show ?thesis
    by (simp add: getAircraft_result getAircraft_load_lazy getAircraft_check_list
        getAircraft_check_fields)
qed

text \<open>
  Claim C5, amended. The comparison is between the two key lists as \<^verbatim>\<open>keys()\<close> returns
  them. When the key list of the fresh registrations differs from the key list of the
  remembered ones (the key sets differ, or the same keys are listed in another order),
  the cache is cleared; the database is then queried again when \<open>lazy\<close> is false (one
  query per rectangle of the split, the remembered registrations replaced by the fresh
  ones), while under \<open>lazy = true\<close> no query is executed, the empty list is returned and
  the remembered registrations stay. Different key sets always give different key lists
  when \<^verbatim>\<open>keys()\<close> lists exactly the keys. When the key lists are equal the cache is not
  cleared on that account: after the check it is what \<^verbatim>\<open>updateCache\<close> left.
\<close>

theorem registration_change_clears_cache:
  "(hashKeys g (simulatorAiRegistrations s) \<noteq> hashKeys g (curRegistrations g) \<longrightarrow>
      list (aircraftCache (getAircraft_check g rect mapLayer lazy s)) = []
      \<and> (lazy \<longrightarrow>
           fst (getAircraft g rect mapLayer lazy s) = []
           \<and> effects (snd (getAircraft g rect mapLayer lazy s)) = effects s
           \<and> simulatorAiRegistrations (snd (getAircraft g rect mapLayer lazy s)) =
               simulatorAiRegistrations s)
      \<and> (\<not> lazy \<longrightarrow>
           effects (snd (getAircraft g rect mapLayer lazy s)) =
             effects s @ map ExecAircraftByRectQuery (splitAtAntiMeridian g rect)
           \<and> fst (getAircraft g rect mapLayer lazy s) =
               take queryMaxRows (filter (notDuplicate g (curRegistrations g))
                 (concat (map (aircraftByRect g) (splitAtAntiMeridian g rect))))
           \<and> simulatorAiRegistrations (snd (getAircraft g rect mapLayer lazy s)) =
               curRegistrations g))
   \<and> ((\<forall>h. set (hashKeys g h) = qhash_keys h) \<and>
       qhash_keys (simulatorAiRegistrations s) \<noteq> qhash_keys (curRegistrations g) \<longrightarrow>
      hashKeys g (simulatorAiRegistrations s) \<noteq> hashKeys g (curRegistrations g))
   \<and> (hashKeys g (simulatorAiRegistrations s) = hashKeys g (curRegistrations g) \<longrightarrow>
      aircraftCache (getAircraft_check g rect mapLayer lazy s) =
        SimpleRectCache_updateCache g rect mapLayer lazy (aircraftCache s))"
proof -
  have sets: "(\<forall>h. set (hashKeys g h) = qhash_keys h) \<and>
       qhash_keys (simulatorAiRegistrations s) \<noteq> qhash_keys (curRegistrations g) \<longrightarrow>
      hashKeys g (simulatorAiRegistrations s) \<noteq> hashKeys g (curRegistrations g)"
    by metis
  have kept: "hashKeys g (simulatorAiRegistrations s) = hashKeys g (curRegistrations g) \<longrightarrow>
      aircraftCache (getAircraft_check g rect mapLayer lazy s) =
        SimpleRectCache_updateCache g rect mapLayer lazy (aircraftCache s)"
    by (simp add: getAircraft_check_def)
  show ?thesis
    using sets kept
    by (simp add: getAircraft_result getAircraft_load_fields getAircraft_check_list
        getAircraft_check_fields)
qed

theorem registration_change_clears_cache_witness:
  "(\<forall>h. set (hashKeys sampleSim h) = qhash_keys h)
   \<and> qhash_keys (simulatorAiRegistrations sampleController) \<noteq>
       qhash_keys (curRegistrations sampleSim)
   \<and> hashKeys sampleSim (simulatorAiRegistrations sampleController) = [''N12345'']
   \<and> hashKeys sampleSim (curRegistrations sampleSim) = [''N12345'', ''DABCD'']
   \<and> fst (getAircraft sampleSim 0 0 True sampleController) = []
   \<and> effects (snd (getAircraft sampleSim 0 0 True sampleController)) = []
   \<and> effects (snd (getAircraft sampleSim 0 0 False sampleController)) = [ExecAircraftByRectQuery 0]
   \<and> fst (getAircraft sampleSim 0 0 False sampleController) =
       [\<lparr>objectId = 12, airplaneRegistration = ''N12345'', position = 60000\<rparr>,
        \<lparr>objectId = 13, airplaneRegistration = ''GXYZ'', position = 5\<rparr>]
   \<and> simulatorAiRegistrations (snd (getAircraft sampleSim 0 0 False sampleController)) =
       [(''N12345'', 0), (''DABCD'', 100000)]
   \<and> hashKeys sampleSim (simulatorAiRegistrations
        (sampleController\<lparr>simulatorAiRegistrations := [(''N12345'', 3), (''DABCD'', 7)]\<rparr>)) =
       hashKeys sampleSim (curRegistrations sampleSim)
   \<and> list (aircraftCache (getAircraft_check sampleSim 0 0 True
        (sampleController\<lparr>simulatorAiRegistrations := [(''N12345'', 3), (''DABCD'', 7)]\<rparr>))) =
       [sampleAircraft]
   \<and> qhash_keys (simulatorAiRegistrations
        (sampleController\<lparr>simulatorAiRegistrations := [(''DABCD'', 7), (''N12345'', 3)]\<rparr>)) =
       qhash_keys (curRegistrations sampleSim)
   \<and> hashKeys sampleSim (simulatorAiRegistrations
        (sampleController\<lparr>simulatorAiRegistrations := [(''DABCD'', 7), (''N12345'', 3)]\<rparr>)) =
       [''DABCD'', ''N12345'']
   \<and> list (aircraftCache (getAircraft_check sampleSim 0 0 True
        (sampleController\<lparr>simulatorAiRegistrations := [(''DABCD'', 7), (''N12345'', 3)]\<rparr>))) = []"
proof -
  have k: "hashKeys sampleSim (simulatorAiRegistrations
        (sampleController\<lparr>simulatorAiRegistrations := [(''N12345'', 3), (''DABCD'', 7)]\<rparr>)) =
       hashKeys sampleSim (curRegistrations sampleSim)"
    by (simp add: sample_cur sample_hashKeys)
  have r: "hashKeys sampleSim (simulatorAiRegistrations
        (sampleController\<lparr>simulatorAiRegistrations := [(''DABCD'', 7), (''N12345'', 3)]\<rparr>)) \<noteq>
       hashKeys sampleSim (curRegistrations sampleSim)"
    by (simp add: sample_cur sample_hashKeys)
  have q: "qhash_keys (simulatorAiRegistrations
        (sampleController\<lparr>simulatorAiRegistrations := [(''DABCD'', 7), (''N12345'', 3)]\<rparr>)) =
       qhash_keys (curRegistrations sampleSim)"
    by (simp add: sample_cur qhash_keys_def insert_commute)
  have e: "effects sampleController = []" "list (aircraftCache sampleController) = [sampleAircraft]"
    "simulatorAiRegistrations sampleController = [(''N12345'', 0)]"
    by (simp_all add: sampleController_def)
  have sp: "splitAtAntiMeridian sampleSim 0 = [0]"
    by (simp add: sampleSim_def)
  show ?thesis
    using registration_change_clears_cache [where s = sampleController and g = sampleSim
        and rect = 0 and mapLayer = 0 and lazy = True]
      registration_change_clears_cache [where s = sampleController and g = sampleSim
        and rect = 0 and mapLayer = 0 and lazy = False]
      registration_change_clears_cache [where g = sampleSim
        and s = "sampleController\<lparr>simulatorAiRegistrations := [(''N12345'', 3), (''DABCD'', 7)]\<rparr>"
        and rect = 0 and mapLayer = 0 and lazy = True]
      registration_change_clears_cache [where g = sampleSim
        and s = "sampleController\<lparr>simulatorAiRegistrations := [(''DABCD'', 7), (''N12345'', 3)]\<rparr>"
        and rect = 0 and mapLayer = 0 and lazy = True]
      sample_keys k r q e sp sample_nd
    by (simp add: sample_cur sample_hashKeys updateCache_lazy queryMaxRows_def qhash_keys_def)
qed

section \<open>Duplicates of simulator aircraft\<close>

text \<open>
  Claim C6. A row the bounding-box query returns during a reload is appended to the list
  if and only if its registration is not a key of the registrations, or its position is
  more than \<open>MIN_DISTANCE_DUPLICATE = nmToMeter(30)\<close> metres from the position recorded
  for that registration; a row at most that far from it is left out. This holds for one
  row, for the rows of one query, and for the list a reload builds from all rectangles
  (before the row ceiling is applied).
\<close>

theorem duplicates_removed_on_reload:
  "appendRows g cur [a] acc =
     (if airplaneRegistration a \<notin> qhash_keys cur \<or>
         (\<exists>p. map_of cur (airplaneRegistration a) = Some p \<and>
              real_of_int (nmToMeter g 30) < distanceMeterTo g (position a) p)
      then acc @ [a] else acc)
   \<and> appendRows g cur rows acc =
       acc @ filter (\<lambda>a. airplaneRegistration a \<notin> qhash_keys cur \<or>
         (\<exists>p. map_of cur (airplaneRegistration a) = Some p \<and>
              real_of_int (nmToMeter g 30) < distanceMeterTo g (position a) p)) rows
   \<and> (list (aircraftCache s) = [] \<longrightarrow>
       list (aircraftCache (getAircraft_load g rect False s)) =
         filter (\<lambda>a. airplaneRegistration a \<notin> qhash_keys (curRegistrations g) \<or>
           (\<exists>p. map_of (curRegistrations g) (airplaneRegistration a) = Some p \<and>
                real_of_int (nmToMeter g 30) < distanceMeterTo g (position a) p))
           (concat (map (aircraftByRect g) (splitAtAntiMeridian g rect))))"
proof -
  have nd: "notDuplicate g c = (\<lambda>a. airplaneRegistration a \<notin> qhash_keys c \<or>
         (\<exists>p. map_of c (airplaneRegistration a) = Some p \<and>
              real_of_int (nmToMeter g 30) < distanceMeterTo g (position a) p))" for c
    by (rule ext) (rule notDuplicate_iff)
  have one: "appendRows g cur [a] acc = (if notDuplicate g cur a then acc @ [a] else acc)"
    by simp
  show ?thesis
    using one appendRows_filter [of g cur rows acc] getAircraft_load_fields(1) [of g rect False s]
    by (simp only: nd) simp
qed


theorem duplicates_removed_on_reload_witness:
  "nmToMeter sampleSim 30 = 55560
   \<and> curRegistrations sampleSim = [(''N12345'', 0), (''DABCD'', 100000)]
   \<and> appendRows sampleSim (curRegistrations sampleSim)
        [\<lparr>objectId = 11, airplaneRegistration = ''N12345'', position = 1000\<rparr>] [] = []
   \<and> appendRows sampleSim (curRegistrations sampleSim)
        [\<lparr>objectId = 12, airplaneRegistration = ''N12345'', position = 60000\<rparr>] [] =
       [\<lparr>objectId = 12, airplaneRegistration = ''N12345'', position = 60000\<rparr>]
   \<and> appendRows sampleSim (curRegistrations sampleSim) (aircraftByRect sampleSim 0) [] =
       [\<lparr>objectId = 12, airplaneRegistration = ''N12345'', position = 60000\<rparr>,
        \<lparr>objectId = 13, airplaneRegistration = ''GXYZ'', position = 5\<rparr>]
   \<and> list (aircraftCache (getAircraft_load sampleSim 0 False
        (sampleController\<lparr>aircraftCache := \<lparr>list = [], curRect = None, curMapLayer = None\<rparr>\<rparr>))) =
       [\<lparr>objectId = 12, airplaneRegistration = ''N12345'', position = 60000\<rparr>,
        \<lparr>objectId = 13, airplaneRegistration = ''GXYZ'', position = 5\<rparr>]"
proof -
  have n: "nmToMeter sampleSim 30 = 55560"
    and d: "distanceMeterTo sampleSim = (\<lambda>p q. real_of_int \<bar>p - q\<bar>)"
    and r: "aircraftByRect sampleSim 0 =
             [\<lparr>objectId = 11, airplaneRegistration = ''N12345'', position = 1000\<rparr>,
              \<lparr>objectId = 12, airplaneRegistration = ''N12345'', position = 60000\<rparr>,
              \<lparr>objectId = 13, airplaneRegistration = ''GXYZ'', position = 5\<rparr>,
              \<lparr>objectId = 14, airplaneRegistration = ''N12345'', position = 55560\<rparr>]"
    and sp: "splitAtAntiMeridian sampleSim 0 = [0]"
    by (simp_all add: sampleSim_def)
  show ?thesis
    using duplicates_removed_on_reload [where g = sampleSim and cur = "curRegistrations sampleSim"
        and a = "\<lparr>objectId = 11, airplaneRegistration = ''N12345'', position = 1000\<rparr>"
        and acc = "[]" and rows = "aircraftByRect sampleSim 0" and rect = 0
        and s = "sampleController\<lparr>aircraftCache := \<lparr>list = [], curRect = None, curMapLayer = None\<rparr>\<rparr>"]
      duplicates_removed_on_reload [where g = sampleSim and cur = "curRegistrations sampleSim"
        and a = "\<lparr>objectId = 12, airplaneRegistration = ''N12345'', position = 60000\<rparr>"
        and acc = "[]" and rows = "[]" and rect = 0
        and s = "sampleController\<lparr>aircraftCache := \<lparr>list = [], curRect = None, curMapLayer = None\<rparr>\<rparr>"]
    by (simp add: sample_cur n d r sp qhash_keys_def notDuplicate_def qhash_contains_def
        MIN_DISTANCE_DUPLICATE_def)
qed

section \<open>The row ceiling\<close>

text \<open>
  Claim C7. The list a query returns, which is the cache's list after the query, has at
  most 5000 records, whatever the one or two (or more) rectangle queries returned. The
  loop of \<^verbatim>\<open>getAircraft\<close> appends without a bound; the ceiling is the work of
  \<^verbatim>\<open>validate\<close> as the spec describes it. The witness reloads 6000 rows and returns 5000.
\<close>

theorem row_ceiling:
  "length (fst (getAircraft g rect mapLayer lazy s)) \<le> 5000
   \<and> length (list (aircraftCache (snd (getAircraft g rect mapLayer lazy s)))) \<le> 5000"
  by (simp add: getAircraft_result queryMaxRows_def)

theorem row_ceiling_witness:
  "length (concat (map (aircraftByRect sampleCrowdedSim) (splitAtAntiMeridian sampleCrowdedSim 0))) = 6000
   \<and> length (list (aircraftCache (getAircraft_load sampleCrowdedSim 0 False
        (getAircraft_check sampleCrowdedSim 0 0 False sampleController)))) = 6000
   \<and> length (fst (getAircraft sampleCrowdedSim 0 0 False sampleController)) = 5000
   \<and> length (list (aircraftCache (snd (getAircraft sampleCrowdedSim 0 0 False sampleController)))) = 5000"
proof -
  have k: "hashKeys sampleCrowdedSim (simulatorAiRegistrations sampleController) \<noteq>
      hashKeys sampleCrowdedSim (curRegistrations sampleCrowdedSim)"
  proof -
    have "hashKeys sampleCrowdedSim = map fst"
      by (simp add: sampleCrowdedSim_def sampleSim_def)
    then show ?thesis
      by (simp add: sampleCrowded_cur sampleController_def)
  qed
  have nd: "notDuplicate sampleCrowdedSim [(''N12345'', 0), (''DABCD'', 100000)]
      \<lparr>objectId = 13, airplaneRegistration = ''GXYZ'', position = 5\<rparr>"
    by (simp add: notDuplicate_def qhash_contains_def)
  have rows: "aircraftByRect sampleCrowdedSim = (\<lambda>r. replicate 3000
        \<lparr>objectId = 13, airplaneRegistration = ''GXYZ'', position = 5\<rparr>)"
    and sp: "splitAtAntiMeridian sampleCrowdedSim 0 = [0, 1]"
    by (simp_all add: sampleCrowdedSim_def sampleSim_def)
  show ?thesis
    using row_ceiling [where g = sampleCrowdedSim and rect = 0 and mapLayer = 0 and lazy = False
        and s = sampleController] k nd
    by (simp add: getAircraft_result getAircraft_load_fields getAircraft_check_list
        sampleCrowded_cur rows sp queryMaxRows_def)
qed

section \<open>Lazy queries repeat their answer\<close>

text \<open>
  Claim C9. Two consecutive queries with the same rectangle and layer and \<open>lazy = true\<close>,
  the second on the state the first left, with no change of the registrations in
  between (\<^verbatim>\<open>keys()\<close> is the same function at both queries and returns the same key list
  for the two fresh registration hashes, as it does when the hashes are the same),
  return the same list, and neither executes a database query. The cache need not even
  be non-empty for this. Equal key sets alone are not enough: the comparison is between
  lists.
\<close>

theorem lazy_query_idempotent:
  assumes "hashKeys g2 = hashKeys g1"
    and "hashKeys g1 (curRegistrations g2) = hashKeys g1 (curRegistrations g1)"
  shows "fst (getAircraft g2 rect mapLayer True (snd (getAircraft g1 rect mapLayer True s))) =
           fst (getAircraft g1 rect mapLayer True s)
    \<and> effects (snd (getAircraft g2 rect mapLayer True (snd (getAircraft g1 rect mapLayer True s)))) =
        effects (snd (getAircraft g1 rect mapLayer True s))
    \<and> effects (snd (getAircraft g1 rect mapLayer True s)) = effects s"
  using assms by (simp add: getAircraft_lazy getAircraft_result(2))

theorem lazy_query_idempotent_witness:
  "hashKeys (sampleSim\<lparr>aiAircraft :=
       [\<lparr>objectId = 2, airplaneRegistration = ''DABCD'', position = 123456\<rparr>]\<rparr>) = map fst
   \<and> hashKeys sampleSim = map fst
   \<and> hashKeys sampleSim (curRegistrations (sampleSim\<lparr>aiAircraft :=
       [\<lparr>objectId = 2, airplaneRegistration = ''DABCD'', position = 123456\<rparr>]\<rparr>)) =
       [''N12345'', ''DABCD'']
   \<and> hashKeys sampleSim (curRegistrations sampleSim) = [''N12345'', ''DABCD'']
   \<and> fst (getAircraft sampleSim 0 0 True
        (sampleController\<lparr>simulatorAiRegistrations := [(''N12345'', 3), (''DABCD'', 7)]\<rparr>)) =
       [sampleAircraft]
   \<and> fst (getAircraft (sampleSim\<lparr>aiAircraft :=
         [\<lparr>objectId = 2, airplaneRegistration = ''DABCD'', position = 123456\<rparr>]\<rparr>) 0 0 True
        (snd (getAircraft sampleSim 0 0 True
          (sampleController\<lparr>simulatorAiRegistrations := [(''N12345'', 3), (''DABCD'', 7)]\<rparr>)))) =
       [sampleAircraft]
   \<and> effects (snd (getAircraft (sampleSim\<lparr>aiAircraft :=
         [\<lparr>objectId = 2, airplaneRegistration = ''DABCD'', position = 123456\<rparr>]\<rparr>) 0 0 True
        (snd (getAircraft sampleSim 0 0 True
          (sampleController\<lparr>simulatorAiRegistrations := [(''N12345'', 3), (''DABCD'', 7)]\<rparr>))))) = []"
proof -
  have c2: "curRegistrations (sampleSim\<lparr>aiAircraft :=
       [\<lparr>objectId = 2, airplaneRegistration = ''DABCD'', position = 123456\<rparr>]\<rparr>) =
       [(''N12345'', 0), (''DABCD'', 123456)]"
    by (simp add: curRegistrations_def sampleSim_def qhash_insert_def qhash_remove_def Let_def)
  have h: "hashKeys (sampleSim\<lparr>aiAircraft :=
       [\<lparr>objectId = 2, airplaneRegistration = ''DABCD'', position = 123456\<rparr>]\<rparr>) =
       hashKeys sampleSim"
    by simp
  have k: "hashKeys sampleSim (curRegistrations (sampleSim\<lparr>aiAircraft :=
       [\<lparr>objectId = 2, airplaneRegistration = ''DABCD'', position = 123456\<rparr>]\<rparr>)) =
     hashKeys sampleSim (curRegistrations sampleSim)"
    by (simp add: c2 sample_cur sample_hashKeys)
  have f: "fst (getAircraft sampleSim 0 0 True
        (sampleController\<lparr>simulatorAiRegistrations := [(''N12345'', 3), (''DABCD'', 7)]\<rparr>)) =
       [sampleAircraft]"
    by (simp add: getAircraft_lazy sample_cur sample_hashKeys sampleController_def
        queryMaxRows_def)
  have e: "effects sampleController = []"
    by (simp add: sampleController_def)
  show ?thesis
    using lazy_query_idempotent [OF h k, where rect = 0 and mapLayer = 0
        and s = "sampleController\<lparr>simulatorAiRegistrations := [(''N12345'', 3), (''DABCD'', 7)]\<rparr>"]
      k f e
    by (simp add: c2 sample_cur sample_hashKeys)
qed

end
